theory Spec2Isabelle
  imports Main
begin

section \<open>The setup script for the image-analysis dependencies\<close>

text \<open>
  A shallow embedding of \<^verbatim>\<open>setup-image-analysis.py\<close>. The script talks to the
  outside world only: it looks commands up on the search path, starts processes, reads
  one line from the operator and prints. The outside world is a record of answers
  (\<open>world\<close>), and every procedure returns the list of things it did (\<open>event\<close>s, in
  order) together with its result, which is either a value or the exception that left it.

  A world answers a lookup or a command line in one way only. The search path is taken
  not to change during a run, and no run gives the same command line to the shell twice
  (lemma \<open>no_command_twice\<close> below), so a world fixes the outcome of every process a run
  starts. Signals are outside the model.
\<close>

subsection \<open>Text\<close>

text \<open>
  Text is a list of 8-bit characters. Every literal of the source is ASCII except four
  symbols, which are written as their UTF-8 bytes. The line read from the operator is
  the only text that is case-mapped and compared; its characters are read as the code
  points U+0000 to U+00FF, and \<open>lower\<close> and \<open>strip\<close> do on them what Python's
  \<^verbatim>\<open>str.lower\<close> and \<^verbatim>\<open>str.strip\<close> do.
\<close>

definition check_mark :: string where
  "check_mark = [CHR 0xE2, CHR 0x9C, CHR 0x93]"

definition cross_mark :: string where
  "cross_mark = [CHR 0xE2, CHR 0x9C, CHR 0x97]"

definition frame_emoji :: string where
  "frame_emoji = [CHR 0xF0, CHR 0x9F, CHR 0x96, CHR 0xBC, CHR 0xEF, CHR 0xB8, CHR 0x8F]"

definition party_emoji :: string where
  "party_emoji = [CHR 0xF0, CHR 0x9F, CHR 0x8E, CHR 0x89]"

definition upper_chars :: string where
  "upper_chars = ''ABCDEFGHIJKLMNOPQRSTUVWXYZ'' @
     [CHR 0xC0, CHR 0xC1, CHR 0xC2, CHR 0xC3, CHR 0xC4, CHR 0xC5, CHR 0xC6, CHR 0xC7,
      CHR 0xC8, CHR 0xC9, CHR 0xCA, CHR 0xCB, CHR 0xCC, CHR 0xCD, CHR 0xCE, CHR 0xCF,
      CHR 0xD0, CHR 0xD1, CHR 0xD2, CHR 0xD3, CHR 0xD4, CHR 0xD5, CHR 0xD6,
      CHR 0xD8, CHR 0xD9, CHR 0xDA, CHR 0xDB, CHR 0xDC, CHR 0xDD, CHR 0xDE]"

definition lower_chars :: string where
  "lower_chars = ''abcdefghijklmnopqrstuvwxyz'' @
     [CHR 0xE0, CHR 0xE1, CHR 0xE2, CHR 0xE3, CHR 0xE4, CHR 0xE5, CHR 0xE6, CHR 0xE7,
      CHR 0xE8, CHR 0xE9, CHR 0xEA, CHR 0xEB, CHR 0xEC, CHR 0xED, CHR 0xEE, CHR 0xEF,
      CHR 0xF0, CHR 0xF1, CHR 0xF2, CHR 0xF3, CHR 0xF4, CHR 0xF5, CHR 0xF6,
      CHR 0xF8, CHR 0xF9, CHR 0xFA, CHR 0xFB, CHR 0xFC, CHR 0xFD, CHR 0xFE]"

definition lower_char :: "char \<Rightarrow> char" where
  \<comment> \<open>the cased code points below 256: A-Z and the Latin-1 capitals, each to its small letter\<close>
  "lower_char c = (case map_of (zip upper_chars lower_chars) c of Some d \<Rightarrow> d | None \<Rightarrow> c)"

definition py_isspace :: "char \<Rightarrow> bool" where
  \<comment> \<open>the code points below 256 for which \<^verbatim>\<open>str.isspace\<close> holds\<close>
  "py_isspace c = (c \<in> set [CHR 0x09, CHR 0x0A, CHR 0x0B, CHR 0x0C, CHR 0x0D,
       CHR 0x1C, CHR 0x1D, CHR 0x1E, CHR 0x1F, CHR 0x20, CHR 0x85, CHR 0xA0])"

definition py_lower :: "string \<Rightarrow> string" where
  "py_lower s = map lower_char s"

definition py_strip :: "string \<Rightarrow> string" where
  "py_strip s = rev (dropWhile py_isspace (rev (dropWhile py_isspace s)))"

subsection \<open>The outside world, events and exceptions\<close>

datatype exn =
    CalledProcessError int   \<comment> \<open>a process ended with this non-zero status\<close>
  | OSError                  \<comment> \<open>a process could not be started\<close>
  | UnicodeDecodeError       \<comment> \<open>\<^verbatim>\<open>bytes.decode\<close> on output that is not UTF-8\<close>
  | EOFError                 \<comment> \<open>\<^verbatim>\<open>input\<close> at the end of standard input\<close>

datatype proc =
    Exited int               \<comment> \<open>the shell ran the command, which ended with this status\<close>
  | Not_started              \<comment> \<open>the shell itself could not be started\<close>

record world =
  which :: "string \<Rightarrow> string option"        \<comment> \<open>\<^verbatim>\<open>shutil.which\<close>: the path found, if any\<close>
  sys_executable :: string                   \<comment> \<open>\<^verbatim>\<open>sys.executable\<close>\<close>
  sys_platform :: string                     \<comment> \<open>\<^verbatim>\<open>sys.platform\<close>\<close>
  run_argv :: "string list \<Rightarrow> exn + string"  \<comment> \<open>an argument vector run with its output
                                                 captured and decoded, or what was raised\<close>
  shell :: "string \<Rightarrow> proc"                  \<comment> \<open>a command line given to the shell\<close>
  stdin_line :: "string option"              \<comment> \<open>the line the operator types; None at end of file\<close>
  str_exn :: "exn \<Rightarrow> string"                 \<comment> \<open>\<^verbatim>\<open>str(e)\<close>\<close>

datatype event =
    Print string             \<comment> \<open>a line written by \<^verbatim>\<open>print\<close>\<close>
  | Shell string             \<comment> \<open>a command line given to the shell\<close>
  | Spawn "string list"      \<comment> \<open>an argument vector run directly\<close>
  | Input string             \<comment> \<open>a prompt written and a line read\<close>

type_synonym 'a io = "event list \<times> (exn + 'a)"

definition io_return :: "'a \<Rightarrow> 'a io" where
  "io_return x = ([], Inr x)"

definition io_raise :: "exn \<Rightarrow> 'a io" where
  "io_raise e = ([], Inl e)"

definition io_bind :: "'a io \<Rightarrow> ('a \<Rightarrow> 'b io) \<Rightarrow> 'b io" where
  \<comment> \<open>one statement after another: an exception skips what follows\<close>
  "io_bind m f = (case m of
       (t, Inl e) \<Rightarrow> (t, Inl e)
     | (t, Inr x) \<Rightarrow> (case f x of (t', r) \<Rightarrow> (t @ t', r)))"

definition io_try :: "'a io \<Rightarrow> (exn \<Rightarrow> 'a io) \<Rightarrow> 'a io" where
  \<comment> \<open>\<^verbatim>\<open>try: m except: h\<close>; a handler that does not match raises the exception again\<close>
  "io_try m h = (case m of
       (t, Inl e) \<Rightarrow> (case h e of (t', r) \<Rightarrow> (t @ t', r))
     | (t, Inr x) \<Rightarrow> (t, Inr x))"

definition py_print :: "string \<Rightarrow> unit io" where
  "py_print s = ([Print s], Inr ())"

definition prints :: "string list \<Rightarrow> unit io" where
  \<comment> \<open>consecutive \<^verbatim>\<open>print\<close> statements\<close>
  "prints ls = (map Print ls, Inr ())"

definition py_input :: "world \<Rightarrow> string \<Rightarrow> string io" where
  "py_input w prompt =
     ([Input prompt], case stdin_line w of None \<Rightarrow> Inl EOFError | Some l \<Rightarrow> Inr l)"

definition check_call :: "world \<Rightarrow> string \<Rightarrow> unit io" where
  \<comment> \<open>\<^verbatim>\<open>subprocess.check_call(command, shell=True)\<close>\<close>
  "check_call w command =
     ([Shell command],
      case shell w command of
        Exited rc \<Rightarrow> if rc = 0 then Inr () else Inl (CalledProcessError rc)
      | Not_started \<Rightarrow> Inl OSError)"

definition check_output :: "world \<Rightarrow> string list \<Rightarrow> string io" where
  \<comment> \<open>\<^verbatim>\<open>subprocess.check_output(argv, stderr=subprocess.STDOUT).decode()\<close>\<close>
  "check_output w argv = ([Spawn argv], run_argv w argv)"

subsection \<open>The procedures of the script\<close>

definition truthy :: "string option \<Rightarrow> bool" where
  \<comment> \<open>Python's truth value of \<^verbatim>\<open>None\<close> or a string\<close>
  "truthy r = (case r of None \<Rightarrow> False | Some p \<Rightarrow> p \<noteq> [])"

definition get_python_command :: "world \<Rightarrow> string" where
  "get_python_command w =
     (if truthy (which w ''python3'') then ''python3''
      else if truthy (which w ''python'') then ''python''
      else sys_executable w)"

definition run_command :: "world \<Rightarrow> string \<Rightarrow> bool io" where
  "run_command w command =
     io_try (io_bind (check_call w command) (\<lambda>_. io_return True))
       (\<lambda>e. case e of CalledProcessError rc \<Rightarrow> io_return False | _ \<Rightarrow> io_raise e)"

definition check_python :: "world \<Rightarrow> bool io" where
  "check_python w =
     io_try
       (io_bind (check_output w [sys_executable w, ''--version'']) (\<lambda>version.
        io_bind (py_print (check_mark @ '' Python found: '' @ py_strip version)) (\<lambda>_.
        io_return True)))
       (\<lambda>e. io_bind (py_print (cross_mark @ '' Python not found: '' @ str_exn w e)) (\<lambda>_.
            io_return False))"

definition packages :: "string list" where
  "packages = [''torch'', ''transformers'', ''Pillow'', ''numpy'']"

definition install_methods :: "(string \<times> string) list" where
  "install_methods =
     [(''--user'', ''user directory''),
      (''--break-system-packages'', ''system packages (with override)'')]"

definition pip_install :: "string \<Rightarrow> string \<Rightarrow> string \<Rightarrow> string" where
  \<comment> \<open>the command line of line 70\<close>
  "pip_install python_cmd method_flag package =
     python_cmd @ '' -m pip install '' @ method_flag @ '' '' @ package"

definition try_method :: "world \<Rightarrow> string \<Rightarrow> string \<Rightarrow> string \<times> string \<Rightarrow> bool io" where
  \<comment> \<open>one pass through the inner loop's body (lines 69 to 75); True is \<^verbatim>\<open>break\<close> with
      \<^verbatim>\<open>installed = True\<close>, False goes on to the next method\<close>
  "try_method w python_cmd package method =
     (case method of (method_flag, method_desc) \<Rightarrow>
        io_try
          (io_bind (run_command w (pip_install python_cmd method_flag package)) (\<lambda>ok.
             if ok then
               io_bind (py_print (check_mark @ '' '' @ package @
                          '' installed successfully (using '' @ method_desc @ '')'')) (\<lambda>_.
               io_return True)
             else io_return False))
          (\<lambda>e. io_return False))"

fun try_methods :: "world \<Rightarrow> string \<Rightarrow> string \<Rightarrow> (string \<times> string) list \<Rightarrow> bool io" where
  \<comment> \<open>the inner loop (line 68); the result is \<^verbatim>\<open>installed\<close>\<close>
  "try_methods w python_cmd package [] = io_return False"
| "try_methods w python_cmd package (method # methods) =
     io_bind (try_method w python_cmd package method) (\<lambda>installed.
       if installed then io_return True
       else try_methods w python_cmd package methods)"

definition venv_advice :: "string \<Rightarrow> string \<Rightarrow> string list" where
  \<comment> \<open>lines 78 to 82\<close>
  "venv_advice python_cmd package =
     [cross_mark @ '' Failed to install '' @ package @ '' with all methods'',
      ''\<newline>You may need to create a virtual environment:'',
      ''  '' @ python_cmd @ '' -m venv epub-env'',
      ''  source epub-env/bin/activate  # On macOS/Linux'',
      ''  '' @ python_cmd @ '' -m pip install '' @ package]"

fun install_packages :: "world \<Rightarrow> string \<Rightarrow> string list \<Rightarrow> bool io" where
  \<comment> \<open>the outer loop (line 64) and the final \<^verbatim>\<open>return True\<close>\<close>
  "install_packages w python_cmd [] = io_return True"
| "install_packages w python_cmd (package # rest) =
     io_bind (py_print (''Installing '' @ package @ ''...'')) (\<lambda>_.
     io_bind (try_methods w python_cmd package install_methods) (\<lambda>installed.
       if \<not> installed then
         io_bind (prints (venv_advice python_cmd package)) (\<lambda>_. io_return False)
       else install_packages w python_cmd rest))"

definition install_dependencies :: "world \<Rightarrow> bool io" where
  "install_dependencies w =
     (let python_cmd = get_python_command w in
      io_bind (prints [''Using Python command: '' @ python_cmd,
                       ''Installing Python packages for image analysis...'']) (\<lambda>_.
      install_packages w python_cmd packages))"

definition tesseract_probe :: string where
  "tesseract_probe = ''tesseract --version > /dev/null 2>&1''"

definition exiftool_probe :: string where
  "exiftool_probe = ''exiftool -ver > /dev/null 2>&1''"

definition check_optional_tools :: "world \<Rightarrow> unit io" where
  "check_optional_tools w =
     io_bind (py_print ''\<newline>Checking optional tools:'') (\<lambda>_.
     io_bind (run_command w tesseract_probe) (\<lambda>found.
     io_bind
       (if found then py_print (check_mark @ '' Tesseract OCR is available'')
        else
          io_bind (py_print
            ''! Tesseract OCR not found. Install it for text extraction from images:'') (\<lambda>_.
          if sys_platform w = ''darwin'' then py_print ''  brew install tesseract''
          else if sys_platform w = ''linux'' then
            prints [''  sudo apt-get install tesseract-ocr  # Debian/Ubuntu'',
                    ''  sudo yum install tesseract          # CentOS/RHEL'']
          else py_print ''  See: https://github.com/tesseract-ocr/tesseract'')) (\<lambda>_.
     io_bind (run_command w exiftool_probe) (\<lambda>found.
       if found then py_print (check_mark @ '' ExifTool is available'')
       else
         io_bind (py_print
           ''! ExifTool not found. Install it for image metadata extraction:'') (\<lambda>_.
         if sys_platform w = ''darwin'' then py_print ''  brew install exiftool''
         else if sys_platform w = ''linux'' then
           prints [''  sudo apt-get install libimage-exiftool-perl  # Debian/Ubuntu'',
                   ''  sudo yum install perl-Image-ExifTool         # CentOS/RHEL'']
         else py_print ''  See: https://exiftool.org/'')))))"

definition banner :: "string list" where
  \<comment> \<open>lines 121 and 122\<close>
  "banner =
     [frame_emoji @ ''  EPUB Accessibility Fixer - Image Analysis Setup'',
      replicate 50 (CHR ''='')]"

definition plan :: "string \<Rightarrow> string list" where
  \<comment> \<open>lines 128 to 135\<close>
  "plan python_cmd =
     [''\<newline>'' @ check_mark @ '' Using Python: '' @ python_cmd,
      ''\<newline>This will install Python packages for AI-powered image analysis.'',
      ''This enables automatic generation of meaningful alt text based on image content.'',
      ''\<newline>Packages to be installed:'',
      ''- torch (PyTorch)'',
      ''- transformers (Hugging Face)'',
      ''- Pillow (PIL)'',
      ''- numpy'']"

definition question :: string where
  "question = ''\<newline>Do you want to proceed? (y/N): ''"

definition success_report :: "string list" where
  \<comment> \<open>lines 143 to 146\<close>
  "success_report =
     [''\<newline>'' @ check_mark @ '' All Python packages installed successfully!'',
      ''\<newline>Image analysis capabilities are now available.'',
      ''The alt text fixer will automatically use AI models to generate'',
      ''descriptive alt text based on actual image content.'']"

definition failure_report :: "string \<Rightarrow> string list" where
  \<comment> \<open>lines 148 to 158\<close>
  "failure_report python_cmd =
     [''\<newline>'' @ cross_mark @ '' Some packages failed to install.'',
      ''\<newline>For externally managed Python environments (like Homebrew), try:'',
      ''\<newline>1. Using pipx (recommended):'',
      ''   brew install pipx'',
      ''   pipx install torch transformers Pillow numpy'',
      ''\<newline>2. Using virtual environment:'',
      ''   '' @ python_cmd @ '' -m venv epub-env'',
      ''   source epub-env/bin/activate'',
      ''   '' @ python_cmd @ '' -m pip install torch transformers Pillow numpy'',
      ''\<newline>3. Force install to user directory:'',
      ''   '' @ python_cmd @ '' -m pip install --user torch transformers Pillow numpy'']"

definition closing :: "string list" where
  \<comment> \<open>lines 163 to 166\<close>
  "closing =
     [''\<newline>'' @ party_emoji @ '' Setup complete!'',
      ''\<newline>Usage:'',
      ''The image analysis will be used automatically when fixing alt text.'',
      ''No additional configuration is required.'']"

definition affirmative :: "string \<Rightarrow> bool" where
  \<comment> \<open>lines 137 and 138: the line read, lower-cased, then stripped, is one of the two words\<close>
  "affirmative line = (py_strip (py_lower line) \<in> set [''y'', ''yes''])"

definition main :: "world \<Rightarrow> bool io" where
  "main w =
     (let python_cmd = get_python_command w in
      io_bind (prints banner) (\<lambda>_.
      io_bind (check_python w) (\<lambda>found.
        if \<not> found then
          io_bind (py_print
            ''\<newline>Python is required but not found. Please install Python 3.7+ and try again.'')
            (\<lambda>_. io_return False)
        else
          io_bind (prints (plan python_cmd)) (\<lambda>_.
          io_bind (py_input w question) (\<lambda>line.
            if \<not> affirmative line then
              io_bind (py_print ''Setup cancelled.'') (\<lambda>_. io_return False)
            else
              io_bind (install_dependencies w) (\<lambda>installed.
                if installed then
                  io_bind (prints success_report) (\<lambda>_.
                  io_bind (check_optional_tools w) (\<lambda>_.
                  io_bind (prints closing) (\<lambda>_.
                  io_return True)))
                else
                  io_bind (prints (failure_report python_cmd)) (\<lambda>_.
                  io_return False)))))))"

datatype ending =
    Sys_exit nat             \<comment> \<open>line 172: \<^verbatim>\<open>sys.exit\<close> with this status\<close>
  | Traceback exn            \<comment> \<open>an exception left \<^verbatim>\<open>main\<close>; the interpreter reports it\<close>

definition script :: "world \<Rightarrow> event list \<times> ending" where
  \<comment> \<open>lines 170 to 172\<close>
  "script w = (case main w of
       (t, Inr success) \<Rightarrow> (t, Sys_exit (if success then 0 else 1))
     | (t, Inl e) \<Rightarrow> (t, Traceback e))"

definition exit_code :: "ending \<Rightarrow> nat" where
  \<comment> \<open>the status the operating system sees; the interpreter ends with 1 after a traceback\<close>
  "exit_code x = (case x of Sys_exit n \<Rightarrow> n | Traceback e \<Rightarrow> 1)"

subsection \<open>Reading a run\<close>

fun shell_cmds :: "event list \<Rightarrow> string list" where
  \<comment> \<open>the command lines given to the shell, in order\<close>
  "shell_cmds [] = []"
| "shell_cmds (Shell c # t) = c # shell_cmds t"
| "shell_cmds (e # t) = shell_cmds t"

fun printed :: "event list \<Rightarrow> string list" where
  \<comment> \<open>the lines printed, in order\<close>
  "printed [] = []"
| "printed (Print l # t) = l # printed t"
| "printed (e # t) = printed t"

definition exits_zero :: "world \<Rightarrow> string \<Rightarrow> bool" where
  "exits_zero w c = (shell w c = Exited 0)"

definition check_passes :: "world \<Rightarrow> bool" where
  \<comment> \<open>the version query of the running interpreter gives output\<close>
  "check_passes w =
     (case run_argv w [sys_executable w, ''--version''] of Inr v \<Rightarrow> True | Inl e \<Rightarrow> False)"

definition confirms :: "world \<Rightarrow> bool" where
  \<comment> \<open>the operator types a line, and it is an affirmative one\<close>
  "confirms w = (case stdin_line w of Some line \<Rightarrow> affirmative line | None \<Rightarrow> False)"

definition preamble :: "world \<Rightarrow> event list" where
  \<comment> \<open>what a run does up to and including the question, when the check passes\<close>
  "preamble w =
     map Print banner @ fst (check_python w) @ map Print (plan (get_python_command w)) @
     [Input question]"


subsection \<open>The installation driver as the specification words it\<close>

text \<open>
  The specification: for each package, attempt each strategy in priority order
  (user-local, then override-system-managed); the first strategy that exits zero marks
  the package installed and short-circuits the remaining strategies; if all strategies
  fail for a package, abort at once, and later packages are never attempted. The
  definitions below say this over lists, without the loops of the script.
\<close>

fun upto_first :: "('a \<Rightarrow> bool) \<Rightarrow> 'a list \<Rightarrow> 'a list" where
  \<comment> \<open>the elements up to and including the first one with the property\<close>
  "upto_first P [] = []"
| "upto_first P (x # xs) = (if P x then [x] else x # upto_first P xs)"

definition strategies :: "string list" where
  "strategies = [''--user'', ''--break-system-packages'']"

definition tried :: "world \<Rightarrow> string \<Rightarrow> string \<Rightarrow> string list" where
  \<comment> \<open>the commands for one package: the strategies in order, up to the first that exits zero\<close>
  "tried w cmd p = upto_first (exits_zero w) (map (\<lambda>f. pip_install cmd f p) strategies)"

definition installs :: "world \<Rightarrow> string \<Rightarrow> string \<Rightarrow> bool" where
  \<comment> \<open>some strategy exits zero for the package\<close>
  "installs w cmd p = list_ex (\<lambda>f. exits_zero w (pip_install cmd f p)) strategies"

definition spec_commands :: "world \<Rightarrow> string \<Rightarrow> string list \<Rightarrow> string list" where
  \<comment> \<open>the commands of a run: those of each package up to the first that does not install\<close>
  "spec_commands w cmd ps =
     concat (map (tried w cmd) (upto_first (\<lambda>p. \<not> installs w cmd p) ps))"

definition all_install :: "world \<Rightarrow> bool" where
  "all_install w = list_all (installs w (get_python_command w)) packages"

subsection \<open>The optional-tool reports as the specification words them\<close>

text \<open>
  The specification: on absence, print the installation hints of the current platform
  bucket (macOS, Linux, other). The blocks below are the hint lines of each bucket.
\<close>

datatype bucket = MacOS | Linux | Other_platform

definition bucket_of :: "string \<Rightarrow> bucket" where
  "bucket_of platform =
     (if platform = ''darwin'' then MacOS
      else if platform = ''linux'' then Linux
      else Other_platform)"

fun tesseract_hint :: "bucket \<Rightarrow> string list" where
  "tesseract_hint MacOS = [''  brew install tesseract'']"
| "tesseract_hint Linux =
     [''  sudo apt-get install tesseract-ocr  # Debian/Ubuntu'',
      ''  sudo yum install tesseract          # CentOS/RHEL'']"
| "tesseract_hint Other_platform = [''  See: https://github.com/tesseract-ocr/tesseract'']"

fun exiftool_hint :: "bucket \<Rightarrow> string list" where
  "exiftool_hint MacOS = [''  brew install exiftool'']"
| "exiftool_hint Linux =
     [''  sudo apt-get install libimage-exiftool-perl  # Debian/Ubuntu'',
      ''  sudo yum install perl-Image-ExifTool         # CentOS/RHEL'']"
| "exiftool_hint Other_platform = [''  See: https://exiftool.org/'']"

definition tesseract_hints :: "string list" where
  "tesseract_hints = concat (map tesseract_hint [MacOS, Linux, Other_platform])"

definition exiftool_hints :: "string list" where
  "exiftool_hints = concat (map exiftool_hint [MacOS, Linux, Other_platform])"

definition tesseract_report :: "bucket \<Rightarrow> bool \<Rightarrow> string list" where
  "tesseract_report b found =
     (if found then [check_mark @ '' Tesseract OCR is available'']
      else ''! Tesseract OCR not found. Install it for text extraction from images:'' #
           tesseract_hint b)"

definition exiftool_report :: "bucket \<Rightarrow> bool \<Rightarrow> string list" where
  "exiftool_report b found =
     (if found then [check_mark @ '' ExifTool is available'']
      else ''! ExifTool not found. Install it for image metadata extraction:'' #
           exiftool_hint b)"

subsection \<open>Four concrete worlds\<close>

definition demo_world :: world where
  \<comment> \<open>Linux, \<^verbatim>\<open>python3\<close> on the path, every installation works, Tesseract is missing, the
      operator types YES\<close>
  "demo_world =
     \<lparr> which = (\<lambda>name. if name = ''python3'' then Some ''/usr/bin/python3'' else None),
       sys_executable = ''/opt/venv/bin/python'',
       sys_platform = ''linux'',
       run_argv = (\<lambda>argv. Inr ''Python 3.12.3\<newline>''),
       shell = (\<lambda>c. if c = tesseract_probe then Exited 127 else Exited 0),
       stdin_line = Some ''YES'',
       str_exn = (\<lambda>e. ''error'') \<rparr>"

definition fail_world :: world where
  \<comment> \<open>the second package fails with both strategies; every other command exits zero\<close>
  "fail_world = demo_world
     \<lparr> shell := (\<lambda>c. if c = ''python3 -m pip install --user transformers'' \<or>
                         c = ''python3 -m pip install --break-system-packages transformers''
                      then Exited 1 else Exited 0) \<rparr>"

definition decline_world :: world where
  \<comment> \<open>the operator types maybe\<close>
  "decline_world = demo_world \<lparr> stdin_line := Some ''maybe'' \<rparr>"

definition broken_world :: world where
  \<comment> \<open>the version query cannot be run\<close>
  "broken_world = demo_world \<lparr> run_argv := (\<lambda>argv. Inl OSError) \<rparr>"

section \<open>Properties\<close>

subsection \<open>The procedures one by one\<close>

lemmas io_defs = io_return_def io_raise_def io_bind_def io_try_def py_print_def prints_def
  py_input_def check_call_def check_output_def

lemmas text_defs = check_mark_def cross_mark_def frame_emoji_def party_emoji_def
  upper_chars_def lower_chars_def lower_char_def py_isspace_def py_lower_def py_strip_def

lemmas script_defs = truthy_def get_python_command_def run_command_def check_python_def
  packages_def install_methods_def pip_install_def try_method_def venv_advice_def
  install_dependencies_def tesseract_probe_def exiftool_probe_def check_optional_tools_def
  banner_def plan_def question_def success_report_def failure_report_def closing_def
  affirmative_def main_def script_def exit_code_def Let_def

lemmas spec_defs = exits_zero_def strategies_def tried_def installs_def spec_commands_def
  check_passes_def confirms_def all_install_def

lemma shell_cmds_append [simp]: "shell_cmds (s @ t) = shell_cmds s @ shell_cmds t"
  by (induction s rule: shell_cmds.induct) auto

lemma shell_cmds_prints [simp]: "shell_cmds (map Print ls) = []"
  by (induction ls) auto

lemma printed_append [simp]: "printed (s @ t) = printed s @ printed t"
  by (induction s rule: printed.induct) auto

lemma printed_prints [simp]: "printed (map Print ls) = ls"
  by (induction ls) auto

lemma run_command_eq:
  "run_command w c =
     ([Shell c], case shell w c of Exited rc \<Rightarrow> Inr (rc = 0) | Not_started \<Rightarrow> Inl OSError)"
  by (simp add: run_command_def io_defs split: proc.splits)

lemma check_python_eq:
  "check_python w =
     (case run_argv w [sys_executable w, ''--version''] of
        Inr v \<Rightarrow> ([Spawn [sys_executable w, ''--version''],
                   Print (check_mark @ '' Python found: '' @ py_strip v)], Inr True)
      | Inl e \<Rightarrow> ([Spawn [sys_executable w, ''--version''],
                   Print (cross_mark @ '' Python not found: '' @ str_exn w e)], Inr False))"
  by (simp add: check_python_def io_defs split: sum.splits)

lemma check_python_result: "snd (check_python w) = Inr (check_passes w)"
  by (simp add: check_python_eq check_passes_def split: sum.splits)

lemma check_python_cmds: "shell_cmds (fst (check_python w)) = []"
  by (simp add: check_python_eq split: sum.splits)

lemma check_python_shape:
  "\<exists>l. fst (check_python w) = [Spawn [sys_executable w, ''--version''], Print l]"
  by (cases "run_argv w [sys_executable w, ''--version'']") (simp_all add: check_python_eq)

lemma try_method_eq:
  "try_method w cmd p (f, d) =
     (if exits_zero w (pip_install cmd f p)
      then ([Shell (pip_install cmd f p),
             Print (check_mark @ '' '' @ p @ '' installed successfully (using '' @ d @ '')'')],
            Inr True)
      else ([Shell (pip_install cmd f p)], Inr False))"
  by (simp add: try_method_def run_command_eq exits_zero_def io_defs split: proc.splits)

lemma try_methods_result:
  "snd (try_methods w cmd p ms) =
     Inr (list_ex (\<lambda>f. exits_zero w (pip_install cmd f p)) (map fst ms))"
proof (induction ms)
  case Nil
  show ?case by (simp add: io_return_def)
next
  case (Cons m ms)
  obtain f d where m: "m = (f, d)" by (cases m)
  from Cons show ?case
    by (cases "try_methods w cmd p ms") (simp add: m try_method_eq io_bind_def io_return_def)
qed

lemma try_methods_cmds:
  "shell_cmds (fst (try_methods w cmd p ms)) =
     upto_first (exits_zero w) (map (\<lambda>f. pip_install cmd f p) (map fst ms))"
proof (induction ms)
  case Nil
  show ?case by (simp add: io_return_def)
next
  case (Cons m ms)
  obtain f d where m: "m = (f, d)" by (cases m)
  from Cons show ?case
    by (cases "try_methods w cmd p ms") (simp add: m try_method_eq io_bind_def io_return_def)
qed

lemma flags_of_methods: "map fst install_methods = strategies"
  by (simp add: install_methods_def strategies_def)

lemma try_install_methods:
  "\<exists>t. try_methods w cmd p install_methods = (t, Inr (installs w cmd p)) \<and>
       shell_cmds t = tried w cmd p"
  using try_methods_result [of w cmd p install_methods]
    try_methods_cmds [of w cmd p install_methods]
  by (cases "try_methods w cmd p install_methods")
     (simp add: flags_of_methods installs_def tried_def)

lemma install_packages_result:
  "snd (install_packages w cmd ps) = Inr (list_all (installs w cmd) ps)"
proof (induction ps)
  case Nil
  show ?case by (simp add: io_return_def)
next
  case (Cons p ps)
  obtain t where t: "try_methods w cmd p install_methods = (t, Inr (installs w cmd p))"
    using try_install_methods by blast
  from Cons show ?case
    by (cases "install_packages w cmd ps") (simp add: t io_defs)
qed

lemma install_packages_cmds:
  "shell_cmds (fst (install_packages w cmd ps)) = spec_commands w cmd ps"
proof (induction ps)
  case Nil
  show ?case by (simp add: io_return_def spec_commands_def)
next
  case (Cons p ps)
  obtain t where t: "try_methods w cmd p install_methods = (t, Inr (installs w cmd p))"
    and c: "shell_cmds t = tried w cmd p"
    using try_install_methods by blast
  from Cons show ?case
    by (cases "install_packages w cmd ps") (simp add: t c io_defs spec_commands_def)
qed


lemma install_dependencies_result: "snd (install_dependencies w) = Inr (all_install w)"
  using install_packages_result [of w "get_python_command w" packages]
  by (cases "install_packages w (get_python_command w) packages")
     (simp add: install_dependencies_def all_install_def io_defs Let_def)

lemma install_dependencies_cmds:
  "shell_cmds (fst (install_dependencies w)) = spec_commands w (get_python_command w) packages"
  using install_packages_cmds [of w "get_python_command w" packages]
  by (cases "install_packages w (get_python_command w) packages")
     (simp add: install_dependencies_def io_defs Let_def)



lemma tried_cases:
  "tried w cmd p =
     (if exits_zero w (pip_install cmd ''--user'' p) then [pip_install cmd ''--user'' p]
      else [pip_install cmd ''--user'' p, pip_install cmd ''--break-system-packages'' p])"
  by (simp add: tried_def strategies_def)

lemma tried_subset:
  "c \<in> set (tried w cmd r) \<Longrightarrow> \<exists>f \<in> set strategies. c = pip_install cmd f r"
  by (auto simp: tried_cases strategies_def split: if_splits)






lemma last_pip_install: "p \<noteq> [] \<Longrightarrow> last (pip_install cmd f p) = last p"
  by (simp add: pip_install_def)

lemma pip_not_probe:
  assumes "p \<in> set packages"
  shows "pip_install cmd f p \<noteq> tesseract_probe" "pip_install cmd f p \<noteq> exiftool_probe"
proof -
  from assms have "p \<noteq> []" and l: "last p \<noteq> CHR ''1''" by (auto simp: packages_def)
  then have "last (pip_install cmd f p) \<noteq> CHR ''1''" by (simp add: last_pip_install)
  moreover have "last tesseract_probe = CHR ''1''" "last exiftool_probe = CHR ''1''"
    by (simp_all add: tesseract_probe_def exiftool_probe_def)
  ultimately show "pip_install cmd f p \<noteq> tesseract_probe" "pip_install cmd f p \<noteq> exiftool_probe"
    by metis+
qed

lemma probe_not_tried:
  "r \<in> set packages \<Longrightarrow> tesseract_probe \<notin> set (tried w cmd r) \<and>
     exiftool_probe \<notin> set (tried w cmd r)"
  using tried_subset [of tesseract_probe w cmd r] tried_subset [of exiftool_probe w cmd r]
    pip_not_probe [of r cmd]
  by metis

lemma probe_not_in_spec_commands:
  "tesseract_probe \<notin> set (spec_commands w cmd packages) \<and>
   exiftool_probe \<notin> set (spec_commands w cmd packages)"
proof -
  have sub: "set (upto_first P xs) \<subseteq> set xs" for P and xs :: "string list"
    by (induction xs) auto
  show ?thesis
    using probe_not_tried [of _ w cmd] sub [of "\<lambda>p. \<not> installs w cmd p" packages]
    by (auto simp: spec_commands_def)
qed


lemma first_command:
  "take 1 (spec_commands w cmd packages) = [pip_install cmd ''--user'' ''torch'']"
  by (simp add: spec_commands_def packages_def tried_cases)

lemma take1_append: "take 1 xs = [x] \<Longrightarrow> take 1 (xs @ ys) = [x]"
  by (cases xs) auto

lemma try_methods_cong:
  "\<forall>m \<in> set ms. shell w' (pip_install cmd (fst m) p) = shell w (pip_install cmd (fst m) p) \<Longrightarrow>
     try_methods w' cmd p ms = try_methods w cmd p ms"
proof (induction ms)
  case Nil
  show ?case by simp
next
  case (Cons m ms)
  obtain f d where m: "m = (f, d)" by (cases m)
  from Cons show ?case by (simp add: m try_method_eq exits_zero_def io_bind_def io_return_def)
qed

lemma install_packages_cong:
  "\<forall>p \<in> set ps. \<forall>m \<in> set install_methods.
       shell w' (pip_install cmd (fst m) p) = shell w (pip_install cmd (fst m) p) \<Longrightarrow>
     install_packages w' cmd ps = install_packages w cmd ps"
proof (induction ps)
  case Nil
  show ?case by simp
next
  case (Cons p ps)
  then have "try_methods w' cmd p install_methods = try_methods w cmd p install_methods"
    by (intro try_methods_cong) simp
  with Cons show ?case by (simp cong: if_cong)
qed

lemma install_dependencies_cong:
  assumes "\<forall>c. c \<noteq> tesseract_probe \<and> c \<noteq> exiftool_probe \<longrightarrow> sh' c = shell w c"
  shows "install_dependencies (w\<lparr>shell := sh'\<rparr>) = install_dependencies w"
proof -
  have "install_packages (w\<lparr>shell := sh'\<rparr>) cmd packages = install_packages w cmd packages" for cmd
    using assms by (intro install_packages_cong) (simp add: pip_not_probe)
  then show ?thesis by (simp add: install_dependencies_def get_python_command_def)
qed

subsection \<open>The optional-tool section\<close>

lemma check_optional_tools_eq:
  "check_optional_tools w =
     (case shell w tesseract_probe of
        Not_started \<Rightarrow> ([Print ''\<newline>Checking optional tools:'', Shell tesseract_probe], Inl OSError)
      | Exited a \<Rightarrow>
          (case shell w exiftool_probe of
             Not_started \<Rightarrow>
               (Print ''\<newline>Checking optional tools:'' # Shell tesseract_probe #
                map Print (tesseract_report (bucket_of (sys_platform w)) (a = 0)) @
                [Shell exiftool_probe], Inl OSError)
           | Exited b \<Rightarrow>
               (Print ''\<newline>Checking optional tools:'' # Shell tesseract_probe #
                map Print (tesseract_report (bucket_of (sys_platform w)) (a = 0)) @
                Shell exiftool_probe #
                map Print (exiftool_report (bucket_of (sys_platform w)) (b = 0)), Inr ())))"
  by (simp add: check_optional_tools_def run_command_eq io_defs tesseract_report_def
      exiftool_report_def bucket_of_def split: proc.splits)

lemma tesseract_lines:
  "filter (\<lambda>l. l \<in> set tesseract_hints)
     (tesseract_report b found) = (if found then [] else tesseract_hint b)"
  by (cases b) (simp_all add: tesseract_report_def check_mark_def tesseract_hints_def exiftool_hints_def)

lemma tesseract_lines_exif:
  "filter (\<lambda>l. l \<in> set tesseract_hints)
     (exiftool_report b found) = []"
  by (cases b) (simp_all add: exiftool_report_def check_mark_def tesseract_hints_def exiftool_hints_def)

lemma exiftool_lines:
  "filter (\<lambda>l. l \<in> set exiftool_hints)
     (exiftool_report b found) = (if found then [] else exiftool_hint b)"
  by (cases b) (simp_all add: exiftool_report_def check_mark_def tesseract_hints_def exiftool_hints_def)

lemma exiftool_lines_tess:
  "filter (\<lambda>l. l \<in> set exiftool_hints)
     (tesseract_report b found) = []"
  by (cases b) (simp_all add: tesseract_report_def check_mark_def tesseract_hints_def exiftool_hints_def)

lemma header_no_hint:
  "''\<newline>Checking optional tools:'' \<notin> set tesseract_hints"
  "''\<newline>Checking optional tools:'' \<notin> set exiftool_hints"
  by (simp_all add: tesseract_hints_def exiftool_hints_def)

lemma hint_blocks_disjoint:
  "b \<noteq> b' \<Longrightarrow> set (tesseract_hint b) \<inter> set (tesseract_hint b') = {}"
  "b \<noteq> b' \<Longrightarrow> set (exiftool_hint b) \<inter> set (exiftool_hint b') = {}"
  by (cases b; cases b'; simp)+

lemma hint_in_hints:
  "set (tesseract_hint b) \<subseteq> set tesseract_hints" "set (exiftool_hint b) \<subseteq> set exiftool_hints"
  by (cases b; simp add: tesseract_hints_def exiftool_hints_def)+

lemma filter_block_only:
  assumes "filter (\<lambda>l. l \<in> H) ls = blk" "set other \<subseteq> H" "set blk \<inter> set other = {}"
  shows "set other \<inter> set ls = {}"
proof -
  have "set blk = {l \<in> set ls. l \<in> H}" using assms(1) by auto
  with assms(2,3) show ?thesis by auto
qed

subsection \<open>The five ways a run can go\<close>

lemma main_check_fails:
  "\<not> check_passes w \<Longrightarrow>
     main w = (map Print banner @ fst (check_python w) @
       [Print ''\<newline>Python is required but not found. Please install Python 3.7+ and try again.''],
       Inr False)"
  using check_python_result [of w]
  by (cases "check_python w") (simp add: main_def io_defs)

lemma main_eof:
  "check_passes w \<Longrightarrow> stdin_line w = None \<Longrightarrow> main w = (preamble w, Inl EOFError)"
  using check_python_result [of w]
  by (cases "check_python w") (simp add: main_def preamble_def io_defs Let_def)

lemma main_declined:
  "check_passes w \<Longrightarrow> stdin_line w = Some line \<Longrightarrow> \<not> affirmative line \<Longrightarrow>
     main w = (preamble w @ [Print ''Setup cancelled.''], Inr False)"
  using check_python_result [of w]
  by (cases "check_python w") (simp add: main_def preamble_def io_defs Let_def)

lemma main_install_fails:
  "check_passes w \<Longrightarrow> confirms w \<Longrightarrow> \<not> all_install w \<Longrightarrow>
     main w = (preamble w @ fst (install_dependencies w) @
                 map Print (failure_report (get_python_command w)), Inr False)"
  using check_python_result [of w] install_dependencies_result [of w]
  by (cases "check_python w"; cases "install_dependencies w")
     (auto simp add: main_def preamble_def confirms_def io_defs Let_def split: option.splits)

lemma main_installed:
  "check_passes w \<Longrightarrow> confirms w \<Longrightarrow> all_install w \<Longrightarrow>
     main w = (case check_optional_tools w of
        (t, Inr u) \<Rightarrow> (preamble w @ fst (install_dependencies w) @ map Print success_report @
                        t @ map Print closing, Inr True)
      | (t, Inl e) \<Rightarrow> (preamble w @ fst (install_dependencies w) @ map Print success_report @ t,
                        Inl e))"
  using check_python_result [of w] install_dependencies_result [of w]
  by (cases "check_python w"; cases "install_dependencies w"; cases "check_optional_tools w")
     (auto simp add: main_def preamble_def confirms_def io_defs Let_def split: option.splits sum.splits)

lemma preamble_cmds: "shell_cmds (preamble w) = []"
  by (simp add: preamble_def check_python_eq split: sum.splits)

lemma preamble_shape:
  "\<exists>a b. preamble w = a @ Spawn [sys_executable w, ''--version''] # b @ [Input question]"
proof -
  obtain l where "fst (check_python w) = [Spawn [sys_executable w, ''--version''], Print l]"
    using check_python_shape by blast
  then have "preamble w = map Print banner @ Spawn [sys_executable w, ''--version''] #
      (Print l # map Print (plan (get_python_command w))) @ [Input question]"
    by (simp add: preamble_def)
  then show ?thesis by blast
qed

lemma script_check_fails:
  "\<not> check_passes w \<Longrightarrow>
     script w = (map Print banner @ fst (check_python w) @
       [Print ''\<newline>Python is required but not found. Please install Python 3.7+ and try again.''],
       Sys_exit 1)"
  by (simp add: script_def main_check_fails)

lemma script_eof:
  "check_passes w \<Longrightarrow> stdin_line w = None \<Longrightarrow> script w = (preamble w, Traceback EOFError)"
  by (simp add: script_def main_eof)

lemma script_declined:
  "check_passes w \<Longrightarrow> stdin_line w = Some line \<Longrightarrow> \<not> affirmative line \<Longrightarrow>
     script w = (preamble w @ [Print ''Setup cancelled.''], Sys_exit 1)"
  by (simp add: script_def main_declined)

lemma script_install_fails:
  "check_passes w \<Longrightarrow> confirms w \<Longrightarrow> \<not> all_install w \<Longrightarrow>
     script w = (preamble w @ fst (install_dependencies w) @
                 map Print (failure_report (get_python_command w)), Sys_exit 1)"
  by (simp add: script_def main_install_fails)

lemma script_installed:
  "check_passes w \<Longrightarrow> confirms w \<Longrightarrow> all_install w \<Longrightarrow>
     script w = (case check_optional_tools w of
        (t, Inr u) \<Rightarrow> (preamble w @ fst (install_dependencies w) @ map Print success_report @
                        t @ map Print closing, Sys_exit 0)
      | (t, Inl e) \<Rightarrow> (preamble w @ fst (install_dependencies w) @ map Print success_report @ t,
                        Traceback e))"
  by (simp add: script_def main_installed split: prod.splits sum.splits)

lemma not_confirms_cases:
  "\<not> confirms w \<Longrightarrow> stdin_line w = None \<or> (\<exists>line. stdin_line w = Some line \<and> \<not> affirmative line)"
  by (auto simp: confirms_def split: option.splits)

lemma no_consent_no_cmds:
  "\<not> check_passes w \<or> \<not> confirms w \<Longrightarrow> shell_cmds (fst (script w)) = []"
proof (cases "check_passes w")
  case False
  then show ?thesis by (simp add: script_check_fails check_python_cmds)
next
  case True
  assume "\<not> check_passes w \<or> \<not> confirms w"
  with True have "\<not> confirms w" by simp
  with True show ?thesis
    using not_confirms_cases [of w]
    by (auto simp: script_eof script_declined preamble_cmds)
qed

lemma no_consent_exit:
  "\<not> check_passes w \<or> \<not> confirms w \<Longrightarrow> exit_code (snd (script w)) = 1"
proof (cases "check_passes w")
  case False
  then show ?thesis by (simp add: script_check_fails exit_code_def)
next
  case True
  assume "\<not> check_passes w \<or> \<not> confirms w"
  with True have "\<not> confirms w" by simp
  with True show ?thesis
    using not_confirms_cases [of w]
    by (auto simp: script_eof script_declined exit_code_def)
qed

lemma consent_prefix:
  "check_passes w \<Longrightarrow> confirms w \<Longrightarrow> \<exists>r. fst (script w) = preamble w @ r"
  by (cases "all_install w")
     (auto simp: script_install_fails script_installed split: prod.splits sum.splits)

lemma no_shell_prefix:
  assumes "shell_cmds P = []" "P @ R = pre @ Shell c # post"
  shows "\<exists>d. pre = P @ d"
proof -
  from assms(2) obtain us where
    "(P = pre @ us \<and> us @ R = Shell c # post) \<or> (P @ us = pre \<and> R = us @ Shell c # post)"
    by (auto simp: append_eq_append_conv2)
  then show ?thesis
  proof
    assume a: "P = pre @ us \<and> us @ R = Shell c # post"
    show ?thesis
    proof (cases us)
      case Nil
      with a show ?thesis by simp
    next
      case (Cons u us')
      with a have "P = pre @ Shell c # us'" by simp
      with assms(1) show ?thesis by simp
    qed
  next
    assume "P @ us = pre \<and> R = us @ Shell c # post"
    then show ?thesis by auto
  qed
qed

lemma consent_first_command:
  assumes "check_passes w" "confirms w"
  shows "take 1 (shell_cmds (fst (script w))) =
    [pip_install (get_python_command w) ''--user'' ''torch'']"
proof (cases "all_install w")
  case False
  with assms show ?thesis
    using first_command [of w "get_python_command w"]
    by (simp add: script_install_fails preamble_cmds install_dependencies_cmds)
next
  case True
  from True assms have
    "\<exists>r. fst (script w) = preamble w @ fst (install_dependencies w) @ r"
    by (auto simp: script_installed split: prod.splits sum.splits)
  then obtain r where "fst (script w) = preamble w @ fst (install_dependencies w) @ r"
    by blast
  then have "shell_cmds (fst (script w)) =
      spec_commands w (get_python_command w) packages @ shell_cmds r"
    by (simp add: preamble_cmds install_dependencies_cmds)
  then show ?thesis
    using take1_append [OF first_command [of w "get_python_command w"]] by simp
qed







lemma isspace_lower: "py_isspace (lower_char c) = py_isspace c"
proof (cases "map_of (zip upper_chars lower_chars) c")
  case None
  then show ?thesis by (simp add: lower_char_def)
next
  case (Some d)
  then have "d \<in> set lower_chars" by (auto dest!: map_of_SomeD set_zip_rightD)
  then have d: "\<not> py_isspace d" by (auto simp: lower_chars_def py_isspace_def)
  from Some have "c \<in> set upper_chars" by (auto dest!: map_of_SomeD set_zip_leftD)
  then have "\<not> py_isspace c" by (auto simp: upper_chars_def py_isspace_def)
  with d Some show ?thesis by (simp add: lower_char_def)
qed

lemma strip_lower: "py_strip (py_lower s) = py_lower (py_strip s)"
  by (simp add: py_strip_def py_lower_def dropWhile_map rev_map comp_def isspace_lower)

text \<open>
  No command line is given to the shell twice in a run: the eight installation commands
  differ from each other and from the two probes.
\<close>

lemma distinct_spec_commands: "distinct (spec_commands w cmd packages)"
  by (simp add: spec_commands_def packages_def tried_cases installs_def strategies_def
      pip_install_def)

lemma script_cmds_cases:
  "shell_cmds (fst (script w)) = [] \<or>
   shell_cmds (fst (script w)) = spec_commands w (get_python_command w) packages \<or>
   shell_cmds (fst (script w)) =
     spec_commands w (get_python_command w) packages @ [tesseract_probe] \<or>
   shell_cmds (fst (script w)) =
     spec_commands w (get_python_command w) packages @ [tesseract_probe, exiftool_probe]"
proof -
  consider (none) "\<not> check_passes w \<or> \<not> confirms w"
    | (failed) "check_passes w" "confirms w" "\<not> all_install w"
    | (installed) "check_passes w" "confirms w" "all_install w"
    by blast
  then show ?thesis
  proof cases
    case none
    then show ?thesis using no_consent_no_cmds by blast
  next
    case failed
    then show ?thesis
      by (simp add: script_install_fails preamble_cmds install_dependencies_cmds)
  next
    case installed
    then show ?thesis
      by (cases "shell w tesseract_probe"; cases "shell w exiftool_probe")
         (simp_all add: script_installed check_optional_tools_eq preamble_cmds
            install_dependencies_cmds)
  qed
qed

lemma no_command_twice: "distinct (shell_cmds (fst (script w)))"
proof -
  have "tesseract_probe \<noteq> exiftool_probe"
    by (simp add: tesseract_probe_def exiftool_probe_def)
  then show ?thesis
    using script_cmds_cases [of w] distinct_spec_commands [of w "get_python_command w"]
      probe_not_in_spec_commands [of w "get_python_command w"]
    by auto
qed

subsection \<open>The concrete worlds\<close>

lemma demo_world_facts:
  "get_python_command demo_world = ''python3''"
  "check_passes demo_world" "confirms demo_world" "all_install demo_world"
  by (simp_all add: demo_world_def spec_defs script_defs text_defs)


lemma decline_world_facts:
  "check_passes decline_world" "stdin_line decline_world = Some ''maybe''"
  "\<not> affirmative ''maybe''" "\<not> confirms decline_world"
  by (simp_all add: decline_world_def demo_world_def spec_defs script_defs text_defs)

lemma fail_world_run:
  "script fail_world =
    (map Print banner @
     [Spawn [''/opt/venv/bin/python'', ''--version''],
      Print (check_mark @ '' Python found: Python 3.12.3'')] @
     map Print (plan ''python3'') @
     [Input question,
      Print ''Using Python command: python3'',
      Print ''Installing Python packages for image analysis...'',
      Print ''Installing torch...'',
      Shell ''python3 -m pip install --user torch'',
      Print (check_mark @ '' torch installed successfully (using user directory)''),
      Print ''Installing transformers...'',
      Shell ''python3 -m pip install --user transformers'',
      Shell ''python3 -m pip install --break-system-packages transformers''] @
     map Print (venv_advice ''python3'' ''transformers'') @
     map Print (failure_report ''python3''),
     Sys_exit 1)"
  by (simp add: fail_world_def demo_world_def script_defs io_defs text_defs)

section \<open>The claims\<close>




text \<open>
  Claim C2, as amended. The availability check runs exactly one process, the currently
  executing interpreter (\<^verbatim>\<open>sys.executable\<close>) with \<^verbatim>\<open>--version\<close>, whatever the
  interpreter resolver returns; it succeeds exactly when that query gives output; and
  when it fails the script ends through \<^verbatim>\<open>sys.exit(1)\<close> without any shell command,
  so without any installation command.
\<close>

theorem availability_check_runs_own_interpreter:
  "(\<exists>l. fst (check_python w) = [Spawn [sys_executable w, ''--version''], Print l]) \<and>
   snd (check_python w) = Inr (check_passes w) \<and>
   (\<not> check_passes w \<longrightarrow> snd (script w) = Sys_exit 1 \<and> shell_cmds (fst (script w)) = [])"
  using check_python_shape [of w] check_python_result [of w] no_consent_no_cmds [of w]
  by (auto simp: script_check_fails)

text \<open>The witness of C2: a world in which the version query cannot be run.\<close>

theorem availability_check_runs_own_interpreter_witness:
  "\<not> check_passes broken_world \<and> snd (script broken_world) = Sys_exit 1 \<and>
   shell_cmds (fst (script broken_world)) = []"
  using availability_check_runs_own_interpreter [of broken_world]
  by (simp add: check_passes_def broken_world_def demo_world_def)

text \<open>
  The counterexample to C2 as it was stated (that the check invokes the command the
  resolver returns): the resolver returns \<^verbatim>\<open>python3\<close>, and the check runs
  \<^verbatim>\<open>/opt/venv/bin/python --version\<close> and never \<^verbatim>\<open>python3 --version\<close>.
\<close>

theorem check_ignores_resolved_command:
  "get_python_command demo_world = ''python3'' \<and>
   fst (check_python demo_world) =
     [Spawn [''/opt/venv/bin/python'', ''--version''],
      Print (check_mark @ '' Python found: Python 3.12.3'')] \<and>
   Spawn [get_python_command demo_world, ''--version''] \<notin> set (fst (check_python demo_world))"
  by (simp add: demo_world_def get_python_command_def truthy_def check_python_def io_defs
      text_defs)



text \<open>
  Claim C4. An operator line is affirmative exactly when, stripped and lower-cased, it is
  \<^verbatim>\<open>y\<close> or \<^verbatim>\<open>yes\<close>. After a passed check an affirmative line lets the run proceed to
  the first installation command; any other line ends the run with the cancellation
  message as its last line, no shell command and \<^verbatim>\<open>sys.exit(1)\<close>. The lines y, Y, yes
  and YES are affirmative; the empty line, n, no and maybe are not.
\<close>

theorem confirmation_gate:
  "(affirmative s \<longleftrightarrow> py_lower (py_strip s) = ''y'' \<or> py_lower (py_strip s) = ''yes'') \<and>
   (check_passes w \<and> stdin_line w = Some s \<and> affirmative s \<longrightarrow>
      take 1 (shell_cmds (fst (script w))) =
        [pip_install (get_python_command w) ''--user'' ''torch'']) \<and>
   (check_passes w \<and> stdin_line w = Some s \<and> \<not> affirmative s \<longrightarrow>
      shell_cmds (fst (script w)) = [] \<and> last (fst (script w)) = Print ''Setup cancelled.'' \<and>
      snd (script w) = Sys_exit 1) \<and>
   list_all affirmative [''y'', ''Y'', ''yes'', ''YES''] \<and>
   list_all (\<lambda>r. \<not> affirmative r) ['''', ''n'', ''no'', ''maybe'']"
proof (intro conjI impI)
  show "affirmative s \<longleftrightarrow> py_lower (py_strip s) = ''y'' \<or> py_lower (py_strip s) = ''yes''"
    by (simp add: affirmative_def strip_lower)
  show "list_all affirmative [''y'', ''Y'', ''yes'', ''YES'']"
    by (simp add: affirmative_def text_defs)
  show "list_all (\<lambda>r. \<not> affirmative r) ['''', ''n'', ''no'', ''maybe'']"
    by (simp add: affirmative_def text_defs)
next
  assume "check_passes w \<and> stdin_line w = Some s \<and> affirmative s"
  then show "take 1 (shell_cmds (fst (script w))) =
      [pip_install (get_python_command w) ''--user'' ''torch'']"
    using consent_first_command [of w] by (simp add: confirms_def)
next
  assume a: "check_passes w \<and> stdin_line w = Some s \<and> \<not> affirmative s"
  then have run: "script w = (preamble w @ [Print ''Setup cancelled.''], Sys_exit 1)"
    using script_declined by blast
  show "shell_cmds (fst (script w)) = []" by (simp add: run preamble_cmds)
  show "last (fst (script w)) = Print ''Setup cancelled.''" by (simp add: run)
  show "snd (script w) = Sys_exit 1" by (simp add: run)
qed

text \<open>The witness of C4: the operator types YES in one world and maybe in another.\<close>

theorem confirmation_gate_witness:
  "check_passes demo_world \<and> stdin_line demo_world = Some ''YES'' \<and> affirmative ''YES'' \<and>
   take 1 (shell_cmds (fst (script demo_world))) = [''python3 -m pip install --user torch''] \<and>
   check_passes decline_world \<and> stdin_line decline_world = Some ''maybe'' \<and>
   \<not> affirmative ''maybe'' \<and> snd (script decline_world) = Sys_exit 1 \<and>
   last (fst (script decline_world)) = Print ''Setup cancelled.''"
proof -
  have a: "check_passes demo_world \<and> stdin_line demo_world = Some ''YES'' \<and> affirmative ''YES''"
    using demo_world_facts(2) by (simp add: demo_world_def affirmative_def text_defs)
  have b: "check_passes decline_world \<and> stdin_line decline_world = Some ''maybe'' \<and>
      \<not> affirmative ''maybe''"
    using decline_world_facts by simp
  from a confirmation_gate [of "''YES''" demo_world]
  have "take 1 (shell_cmds (fst (script demo_world))) =
      [pip_install (get_python_command demo_world) ''--user'' ''torch'']" by blast
  then have "take 1 (shell_cmds (fst (script demo_world))) = [''python3 -m pip install --user torch'']"
    by (simp add: demo_world_facts(1) pip_install_def)
  moreover from b confirmation_gate [of "''maybe''" decline_world]
  have "snd (script decline_world) = Sys_exit 1 \<and>
      last (fst (script decline_world)) = Print ''Setup cancelled.''" by blast
  ultimately show ?thesis using a b by blast
qed



text \<open>
  Claim C6. The interpreter resolver returns \<^verbatim>\<open>python3\<close> whenever that command is
  found, also when \<^verbatim>\<open>python\<close> is found too; otherwise \<^verbatim>\<open>python\<close> when that is found;
  otherwise the path of the running interpreter. It always returns one of the three, and
  its result is determined by the two lookups and that path.
\<close>

theorem resolver_prefers_versioned:
  "(\<forall>p. which w ''python3'' = Some p \<and> p \<noteq> [] \<longrightarrow> get_python_command w = ''python3'') \<and>
   (\<forall>p. which w ''python3'' = None \<and> which w ''python'' = Some p \<and> p \<noteq> [] \<longrightarrow>
        get_python_command w = ''python'') \<and>
   (which w ''python3'' = None \<and> which w ''python'' = None \<longrightarrow>
        get_python_command w = sys_executable w) \<and>
   get_python_command w \<in> {''python3'', ''python'', sys_executable w} \<and>
   (\<forall>w'. which w' ''python3'' = which w ''python3'' \<and> which w' ''python'' = which w ''python'' \<and>
         sys_executable w' = sys_executable w \<longrightarrow> get_python_command w' = get_python_command w)"
  by (simp add: get_python_command_def truthy_def)

text \<open>The witness of C6: a world with \<^verbatim>\<open>python3\<close> on the path.\<close>

theorem resolver_prefers_versioned_witness:
  "which demo_world ''python3'' = Some ''/usr/bin/python3'' \<and>
   get_python_command demo_world = ''python3'' \<and>
   which broken_world ''python3'' = which demo_world ''python3'' \<and>
   get_python_command broken_world = get_python_command demo_world"
  using resolver_prefers_versioned [of demo_world]
  by (simp add: demo_world_def broken_world_def)

text \<open>
  Claim C7. Wherever a run gives a command to the shell, the check has passed, the
  operator has confirmed, and the version query and the question come earlier in the
  run, in this order. When the check fails or the operator does not confirm, the run
  gives no command to the shell at all and its exit code is 1.
\<close>

theorem no_install_before_consent:
  "(\<forall>pre c post. fst (script w) = pre @ Shell c # post \<longrightarrow>
      check_passes w \<and> confirms w \<and>
      (\<exists>a b d. pre = a @ Spawn [sys_executable w, ''--version''] # b @ Input question # d)) \<and>
   (\<not> check_passes w \<or> \<not> confirms w \<longrightarrow>
      shell_cmds (fst (script w)) = [] \<and> exit_code (snd (script w)) = 1)"
proof (intro conjI allI impI)
  fix pre c post
  assume tr: "fst (script w) = pre @ Shell c # post"
  then have "shell_cmds (fst (script w)) \<noteq> []" by simp
  then have ok: "check_passes w \<and> confirms w" using no_consent_no_cmds by blast
  then show "check_passes w" "confirms w" by simp_all
  from ok obtain r where "fst (script w) = preamble w @ r" using consent_prefix by blast
  with tr have "preamble w @ r = pre @ Shell c # post" by simp
  then obtain d where d: "pre = preamble w @ d" using no_shell_prefix preamble_cmds by blast
  obtain a b where "preamble w = a @ Spawn [sys_executable w, ''--version''] # b @ [Input question]"
    using preamble_shape by blast
  with d have "pre = a @ Spawn [sys_executable w, ''--version''] # b @ Input question # d" by simp
  then show "\<exists>a b d. pre = a @ Spawn [sys_executable w, ''--version''] # b @ Input question # d"
    by blast
next
  assume "\<not> check_passes w \<or> \<not> confirms w"
  then show "shell_cmds (fst (script w)) = []" "exit_code (snd (script w)) = 1"
    using no_consent_no_cmds no_consent_exit by blast+
qed

text \<open>The witness of C7: a run that installs, and a run the operator declines.\<close>

theorem no_install_before_consent_witness:
  "(\<exists>pre post. fst (script fail_world) =
       pre @ Shell ''python3 -m pip install --user torch'' # post) \<and>
   check_passes fail_world \<and> confirms fail_world \<and>
   \<not> confirms decline_world \<and> shell_cmds (fst (script decline_world)) = [] \<and>
   exit_code (snd (script decline_world)) = 1"
proof -
  have "Shell ''python3 -m pip install --user torch'' \<in> set (fst (script fail_world))"
    by (simp add: fail_world_run)
  then have ex: "\<exists>pre post. fst (script fail_world) =
       pre @ Shell ''python3 -m pip install --user torch'' # post"
    by (rule split_list)
  with no_install_before_consent [of fail_world]
  have "check_passes fail_world \<and> confirms fail_world" by blast
  moreover from decline_world_facts(4) no_install_before_consent [of decline_world]
  have "shell_cmds (fst (script decline_world)) = [] \<and>
      exit_code (snd (script decline_world)) = 1" by blast
  ultimately show ?thesis using ex decline_world_facts(4) by blast
qed

text \<open>
  Claim C8. When a probe ends with a non-zero status, the hint lines printed for that
  tool are exactly the block of the current platform bucket, each line once and in
  order, and no line of the blocks of the other two buckets is printed. The three blocks
  of a tool have no line in common.
\<close>

theorem hint_matches_platform:
  "(\<forall>rc. shell w tesseract_probe = Exited rc \<and> rc \<noteq> 0 \<longrightarrow>
      filter (\<lambda>l. l \<in> set tesseract_hints) (printed (fst (check_optional_tools w))) =
        tesseract_hint (bucket_of (sys_platform w)) \<and>
      (\<forall>b. b \<noteq> bucket_of (sys_platform w) \<longrightarrow>
         set (tesseract_hint b) \<inter> set (printed (fst (check_optional_tools w))) = {})) \<and>
   (\<forall>a rc. shell w tesseract_probe = Exited a \<and> shell w exiftool_probe = Exited rc \<and> rc \<noteq> 0 \<longrightarrow>
      filter (\<lambda>l. l \<in> set exiftool_hints) (printed (fst (check_optional_tools w))) =
        exiftool_hint (bucket_of (sys_platform w)) \<and>
      (\<forall>b. b \<noteq> bucket_of (sys_platform w) \<longrightarrow>
         set (exiftool_hint b) \<inter> set (printed (fst (check_optional_tools w))) = {})) \<and>
   distinct tesseract_hints \<and> distinct exiftool_hints"
proof (intro conjI allI impI)
  fix rc assume a: "shell w tesseract_probe = Exited rc \<and> rc \<noteq> 0"
  show t: "filter (\<lambda>l. l \<in> set tesseract_hints) (printed (fst (check_optional_tools w))) =
      tesseract_hint (bucket_of (sys_platform w))"
    using a header_no_hint(1)
    by (cases "shell w exiftool_probe")
       (simp_all add: check_optional_tools_eq tesseract_lines tesseract_lines_exif)
  fix b assume "b \<noteq> bucket_of (sys_platform w)"
  then have "set (tesseract_hint (bucket_of (sys_platform w))) \<inter> set (tesseract_hint b) = {}"
    using hint_blocks_disjoint(1) by blast
  with t hint_in_hints(1) [of b]
  show "set (tesseract_hint b) \<inter> set (printed (fst (check_optional_tools w))) = {}"
    by (rule filter_block_only)
next
  fix a rc
  assume a: "shell w tesseract_probe = Exited a \<and> shell w exiftool_probe = Exited rc \<and> rc \<noteq> 0"
  show t: "filter (\<lambda>l. l \<in> set exiftool_hints) (printed (fst (check_optional_tools w))) =
      exiftool_hint (bucket_of (sys_platform w))"
    using a header_no_hint(2)
    by (simp add: check_optional_tools_eq exiftool_lines exiftool_lines_tess)
  fix b assume "b \<noteq> bucket_of (sys_platform w)"
  then have "set (exiftool_hint (bucket_of (sys_platform w))) \<inter> set (exiftool_hint b) = {}"
    using hint_blocks_disjoint(2) by blast
  with t hint_in_hints(2) [of b]
  show "set (exiftool_hint b) \<inter> set (printed (fst (check_optional_tools w))) = {}"
    by (rule filter_block_only)
next
  show "distinct tesseract_hints" by (simp add: tesseract_hints_def)
  show "distinct exiftool_hints" by (simp add: exiftool_hints_def)
qed

text \<open>The witness of C8: Linux with Tesseract missing.\<close>

theorem hint_matches_platform_witness:
  "shell demo_world tesseract_probe = Exited 127 \<and> (127::int) \<noteq> 0 \<and>
   bucket_of (sys_platform demo_world) = Linux \<and>
   filter (\<lambda>l. l \<in> set tesseract_hints) (printed (fst (check_optional_tools demo_world))) =
     [''  sudo apt-get install tesseract-ocr  # Debian/Ubuntu'',
      ''  sudo yum install tesseract          # CentOS/RHEL''] \<and>
   set (tesseract_hint MacOS) \<inter> set (printed (fst (check_optional_tools demo_world))) = {}"
proof -
  have a: "shell demo_world tesseract_probe = Exited 127 \<and> (127::int) \<noteq> 0"
    by (simp add: demo_world_def)
  have b: "bucket_of (sys_platform demo_world) = Linux"
    by (simp add: demo_world_def bucket_of_def)
  from a hint_matches_platform [of demo_world]
  have f: "filter (\<lambda>l. l \<in> set tesseract_hints)
        (printed (fst (check_optional_tools demo_world))) =
      tesseract_hint (bucket_of (sys_platform demo_world))"
    and g: "\<forall>b. b \<noteq> bucket_of (sys_platform demo_world) \<longrightarrow>
       set (tesseract_hint b) \<inter> set (printed (fst (check_optional_tools demo_world))) = {}"
    by blast+
  from g [rule_format, of MacOS] b
  have m: "set (tesseract_hint MacOS) \<inter> set (printed (fst (check_optional_tools demo_world))) = {}"
    by simp
  from f b have "filter (\<lambda>l. l \<in> set tesseract_hints)
        (printed (fst (check_optional_tools demo_world))) =
     [''  sudo apt-get install tesseract-ocr  # Debian/Ubuntu'',
      ''  sudo yum install tesseract          # CentOS/RHEL'']"
    by simp
  with a b m show ?thesis by blast
qed

text \<open>
  Claim C9. When both probes can be started, the report of each tool is a function of
  the platform and of that tool's own probe, and the section raises nothing. For two
  runs that differ only in the statuses with which the two probes end, the script ends
  in the same way with the same exit code.
\<close>

theorem probes_independent_nonfatal:
  assumes "shell w tesseract_probe = Exited a" "shell w exiftool_probe = Exited b"
    "sh' tesseract_probe = Exited a'" "sh' exiftool_probe = Exited b'"
    "\<forall>c. c \<noteq> tesseract_probe \<and> c \<noteq> exiftool_probe \<longrightarrow> sh' c = shell w c"
  shows "check_optional_tools w =
      (Print ''\<newline>Checking optional tools:'' # Shell tesseract_probe #
       map Print (tesseract_report (bucket_of (sys_platform w)) (a = 0)) @
       Shell exiftool_probe #
       map Print (exiftool_report (bucket_of (sys_platform w)) (b = 0)), Inr ()) \<and>
    check_optional_tools (w\<lparr>shell := sh'\<rparr>) =
      (Print ''\<newline>Checking optional tools:'' # Shell tesseract_probe #
       map Print (tesseract_report (bucket_of (sys_platform w)) (a' = 0)) @
       Shell exiftool_probe #
       map Print (exiftool_report (bucket_of (sys_platform w)) (b' = 0)), Inr ()) \<and>
    snd (script (w\<lparr>shell := sh'\<rparr>)) = snd (script w) \<and>
    exit_code (snd (script (w\<lparr>shell := sh'\<rparr>))) = exit_code (snd (script w))"
proof -
  let ?w = "w\<lparr>shell := sh'\<rparr>"
  have tools: "check_optional_tools w =
      (Print ''\<newline>Checking optional tools:'' # Shell tesseract_probe #
       map Print (tesseract_report (bucket_of (sys_platform w)) (a = 0)) @
       Shell exiftool_probe #
       map Print (exiftool_report (bucket_of (sys_platform w)) (b = 0)), Inr ())"
    by (simp add: check_optional_tools_eq assms(1,2))
  have tools': "check_optional_tools ?w =
      (Print ''\<newline>Checking optional tools:'' # Shell tesseract_probe #
       map Print (tesseract_report (bucket_of (sys_platform w)) (a' = 0)) @
       Shell exiftool_probe #
       map Print (exiftool_report (bucket_of (sys_platform w)) (b' = 0)), Inr ())"
    by (simp add: check_optional_tools_eq assms(3,4))
  have cp: "check_passes ?w = check_passes w" by (simp add: check_passes_def)
  have cf: "confirms ?w = confirms w" by (simp add: confirms_def)
  have "install_dependencies ?w = install_dependencies w"
    using assms(5) by (rule install_dependencies_cong)
  then have ai: "all_install ?w = all_install w"
    using install_dependencies_result [of ?w] install_dependencies_result [of w] by simp
  have line: "stdin_line ?w = stdin_line w" by simp
  consider (nocheck) "\<not> check_passes w"
    | (eof) "check_passes w" "stdin_line w = None"
    | (declined) line where "check_passes w" "stdin_line w = Some line" "\<not> affirmative line"
    | (failed) "check_passes w" "confirms w" "\<not> all_install w"
    | (installed) "check_passes w" "confirms w" "all_install w"
    by (cases "stdin_line w") (auto simp: confirms_def)
  then have "snd (script ?w) = snd (script w)"
  proof cases
    case nocheck
    then show ?thesis using cp by (simp add: script_check_fails)
  next
    case eof
    then show ?thesis using cp line by (simp add: script_eof)
  next
    case declined
    then show ?thesis using cp line by (simp add: script_declined)
  next
    case failed
    then show ?thesis using cp cf ai by (simp add: script_install_fails)
  next
    case installed
    then show ?thesis using cp cf ai by (simp add: script_installed tools tools')
  qed
  with tools tools' show ?thesis by simp
qed

text \<open>The witness of C9: Tesseract missing in one run and present in the other.\<close>

theorem probes_independent_nonfatal_witness:
  "shell demo_world tesseract_probe = Exited 127 \<and>
   shell demo_world exiftool_probe = Exited 0 \<and>
   snd (check_optional_tools demo_world) = Inr () \<and>
   snd (script (demo_world\<lparr>shell := (\<lambda>c. Exited 0)\<rparr>)) = snd (script demo_world)"
proof -
  have a: "shell demo_world tesseract_probe = Exited 127"
    and b: "shell demo_world exiftool_probe = Exited 0"
    and c: "\<forall>c. c \<noteq> tesseract_probe \<and> c \<noteq> exiftool_probe \<longrightarrow> Exited 0 = shell demo_world c"
    by (simp_all add: demo_world_def tesseract_probe_def exiftool_probe_def)
  from probes_independent_nonfatal [of demo_world 127 0 "\<lambda>c. Exited 0" 0 0, OF a b refl refl c]
  show ?thesis using a b by simp
qed

text \<open>
  Claim C10. The shell-command helper returns True when the command exits with status
  0 and False when it exits with any other status, and no called-process error ever
  leaves it.
\<close>

theorem run_command_boolean:
  "(shell w c = Exited 0 \<longrightarrow> run_command w c = ([Shell c], Inr True)) \<and>
   (\<forall>rc. shell w c = Exited rc \<and> rc \<noteq> 0 \<longrightarrow> run_command w c = ([Shell c], Inr False)) \<and>
   (\<forall>rc. snd (run_command w c) \<noteq> Inl (CalledProcessError rc))"
  by (simp add: run_command_def io_defs split: proc.splits)

text \<open>The witness of C10: one probe that exits with 127 and one that exits with 0.\<close>

theorem run_command_boolean_witness:
  "shell demo_world tesseract_probe = Exited 127 \<and>
   run_command demo_world tesseract_probe = ([Shell tesseract_probe], Inr False) \<and>
   shell demo_world exiftool_probe = Exited 0 \<and>
   run_command demo_world exiftool_probe = ([Shell exiftool_probe], Inr True)"
proof -
  have a: "shell demo_world tesseract_probe = Exited 127 \<and> (127::int) \<noteq> 0"
    and b: "shell demo_world exiftool_probe = Exited 0"
    by (simp_all add: demo_world_def tesseract_probe_def exiftool_probe_def)
  from a run_command_boolean [of demo_world tesseract_probe]
  have "run_command demo_world tesseract_probe = ([Shell tesseract_probe], Inr False)" by blast
  moreover from b run_command_boolean [of demo_world exiftool_probe]
  have "run_command demo_world exiftool_probe = ([Shell exiftool_probe], Inr True)" by blast
  ultimately show ?thesis using a b by blast
qed


end
